theory Spec2Isabelle
  imports Main "HOL-Library.AList" "HOL-Library.Sublist" "HOL-Library.Multiset"
begin

section \<open>Values thrown and caught\<close>

text \<open>
  The source normalises what it catches with
  \<^verbatim>\<open>error instanceof Error ? error : new Error(String(error))\<close>.
  A thrown JavaScript value is therefore kept as one of three kinds: an \<^verbatim>\<open>Error\<close> instance
  (with its message); some other value that \<^verbatim>\<open>String(value)\<close> converts (with the text it
  yields); or a value on which the normalising expression itself throws, as
  \<^verbatim>\<open>String(Object.create(null))\<close> does (with what is thrown then).
\<close>

datatype thrown = ErrorObj string | NonError string | Unconvertible thrown

text \<open>The normalising expression: the Error it yields (\<open>Inr\<close>) or what it throws (\<open>Inl\<close>).\<close>

fun as_error :: "thrown \<Rightarrow> thrown + thrown" where
  "as_error (ErrorObj m) = Inr (ErrorObj m)"
| "as_error (NonError s) = Inr (ErrorObj s)"
| "as_error (Unconvertible y) = Inl y"


section \<open>The target registry\<close>

subsection \<open>Data model (src/src/interfaces/index.ts)\<close>

text \<open>
  The \<^verbatim>\<open>events\<close> of a target is an array object. \<^verbatim>\<open>addTarget\<close> and \<^verbatim>\<open>updateTarget\<close> store the
  array they are given, not a copy, and \<^verbatim>\<open>addEventToTarget\<close> pushes into it in place, so
  arrays are kept in a store and targets hold references to them: \<open>Given i\<close> is the
  \<open>i\<close>-th array of the caller, \<open>Created n\<close> the array \<^verbatim>\<open>[]\<close> that \<^verbatim>\<open>addTarget\<close> made for the
  target named \<open>n\<close> (only that target ever holds it). An array of the caller may have
  been made non-extensible (\<^verbatim>\<open>Object.freeze\<close>, \<^verbatim>\<open>Object.seal\<close>,
  \<^verbatim>\<open>Object.preventExtensions\<close>); \<^verbatim>\<open>push\<close> then throws a \<^verbatim>\<open>TypeError\<close>.
\<close>

datatype array_ref = Given nat | Created string

type_synonym arrays = "array_ref \<Rightarrow> string list"

text \<open>
  A stored target always has the four properties written by \<^verbatim>\<open>addTarget\<close>. An absent
  \<^verbatim>\<open>url\<close> is \<open>None\<close>. Headers are a \<^verbatim>\<open>Record<string, string>\<close>, read only by key; the
  dispatcher never writes into a headers object, it replaces it. A headers object is
  taken to hold data properties only, so that copying it with a spread does not throw.
\<close>

record target =
  name :: string
  url :: "string option"
  headers :: "string \<rightharpoonup> string"
  events :: array_ref

text \<open>
  The \<^verbatim>\<open>Target\<close> object a caller passes to \<^verbatim>\<open>addTarget\<close>: \<^verbatim>\<open>addTarget\<close> itself defaults
  \<^verbatim>\<open>headers\<close> and \<^verbatim>\<open>events\<close>, so both may be missing on the way in. \<open>in_events\<close> says
  which of the caller's arrays was passed.
\<close>

record target_in =
  in_name :: string
  in_url :: "string option"
  in_headers :: "(string \<rightharpoonup> string) option"
  in_events :: "nat option"

text \<open>The update object; \<open>upd_events\<close> too names an array of the caller.\<close>

record target_update =
  upd_url :: "string option"
  upd_headers :: "(string \<rightharpoonup> string) option"
  upd_events :: "nat option"

text \<open>An argument typed \<^verbatim>\<open>T | T[]\<close>, and the \<^verbatim>\<open>Array.isArray(x) ? x : [x]\<close> idiom.\<close>

datatype 'a one_or_many = One 'a | Many "'a list"

fun as_array :: "'a one_or_many \<Rightarrow> 'a list" where
  "as_array (One x) = [x]"
| "as_array (Many xs) = xs"

subsection \<open>The registry object\<close>

text \<open>
  \<^verbatim>\<open>private targets: Record<string, Target> = {}\<close> is a plain object. The model keeps its own
  properties as an association list in the order \<^verbatim>\<open>Object.values\<close> enumerates them:
  array-index keys (canonical decimal strings up to \<open>2^32 - 2\<close>) first, in ascending numeric
  order, then every other key in insertion order.
\<close>

type_synonym registry = "(string \<times> target) list"

text \<open>
  The state of a dispatcher: its registry, the arrays as they are now, and which of the
  caller's arrays are not extensible.
\<close>

record dispatcher =
  targets :: registry
  arrays :: arrays
  frozen :: "nat set"


text \<open>The value of a decimal digit, by its character code (\<open>48\<close> is the code of \<^verbatim>\<open>0\<close>).\<close>

definition digit :: "char \<Rightarrow> nat option" where
  "digit c =
     (let code = (of_char c :: nat)
      in if 48 \<le> code \<and> code \<le> 57 then Some (code - 48) else None)"

fun decimal :: "nat \<Rightarrow> string \<Rightarrow> nat option" where
  "decimal n [] = Some n"
| "decimal n (c # cs) = (case digit c of None \<Rightarrow> None | Some d \<Rightarrow> decimal (10 * n + d) cs)"

definition array_index :: "string \<Rightarrow> nat option" where
  "array_index k =
     (if k = [] \<or> (hd k = CHR ''0'' \<and> k \<noteq> ''0'') then None
      else case decimal 0 k of
             None \<Rightarrow> None
           | Some i \<Rightarrow> if i \<le> 4294967294 then Some i else None)"

definition enumerated_before :: "string \<Rightarrow> string \<Rightarrow> bool" where
  "enumerated_before k' k =
     (case array_index k of
        None \<Rightarrow> True
      | Some i \<Rightarrow> (case array_index k' of None \<Rightarrow> False | Some i' \<Rightarrow> i' < i))"

text \<open>Creating an own property under a key the object does not have yet.\<close>

definition define_property :: "string \<Rightarrow> target \<Rightarrow> registry \<Rightarrow> registry" where
  "define_property k t reg =
     takeWhile (\<lambda>(k', _). enumerated_before k' k) reg
       @ (k, t) # dropWhile (\<lambda>(k', _). enumerated_before k' k) reg"

text \<open>
  Reading \<^verbatim>\<open>this.targets[name]\<close> goes through the prototype chain: a key that is not an own
  property but names a member of \<^verbatim>\<open>Object.prototype\<close> yields that member (a built-in
  function, or for \<^verbatim>\<open>__proto__\<close> the prototype object itself), which is truthy.
\<close>

definition object_prototype_keys :: "string list" where
  "object_prototype_keys =
     [''constructor'', ''__defineGetter__'', ''__defineSetter__'', ''hasOwnProperty'',
      ''__lookupGetter__'', ''__lookupSetter__'', ''isPrototypeOf'', ''propertyIsEnumerable'',
      ''toString'', ''valueOf'', ''__proto__'', ''toLocaleString'']"

datatype property = Own target | Inherited | Undefined

definition get_property :: "registry \<Rightarrow> string \<Rightarrow> property" where
  "get_property reg k =
     (case map_of reg k of
        Some t \<Rightarrow> Own t
      | None \<Rightarrow> if k \<in> set object_prototype_keys then Inherited else Undefined)"

subsection \<open>addTarget\<close>

text \<open>
  The object literal \<^verbatim>\<open>addTarget\<close> stores. \<^verbatim>\<open>events: target.events || []\<close> keeps the
  caller's array when there is one and makes a new empty array otherwise.
\<close>

definition stored_target :: "target_in \<Rightarrow> target" where
  "stored_target a =
     \<lparr> name = in_name a,
       url = in_url a,
       headers = (case in_headers a of None \<Rightarrow> Map.empty | Some h \<Rightarrow> h),
       events = (case in_events a of None \<Rightarrow> Created (in_name a) | Some i \<Rightarrow> Given i) \<rparr>"

text \<open>
  The callback of \<^verbatim>\<open>targets.map\<close>: one entry of the batch against the dispatcher as it is
  at that moment. \<^verbatim>\<open>if (this.targets[target.name])\<close> holds for an own target and for an
  inherited member alike.
\<close>

definition addTarget_entry :: "target_in \<Rightarrow> dispatcher \<Rightarrow> bool \<times> dispatcher" where
  "addTarget_entry a st =
     (case get_property (targets st) (in_name a) of
        Undefined \<Rightarrow>
          (True,
           st \<lparr> targets := define_property (in_name a) (stored_target a) (targets st),
                arrays := (case in_events a of
                             None \<Rightarrow> (arrays st)(Created (in_name a) := [])
                           | Some i \<Rightarrow> arrays st) \<rparr>)
      | _ \<Rightarrow> (False, st))"

fun addTarget_map :: "target_in list \<Rightarrow> dispatcher \<Rightarrow> bool list \<times> dispatcher" where
  "addTarget_map [] st = ([], st)"
| "addTarget_map (a # as) st =
     (let (r, st') = addTarget_entry a st;
          (rs, st'') = addTarget_map as st'
      in (r # rs, st''))"

definition addTarget :: "dispatcher \<Rightarrow> target_in one_or_many \<Rightarrow> bool \<times> dispatcher" where
  "addTarget st arg =
     (let (results, st') = addTarget_map (as_array arg) st
      in (list_all (\<lambda>r. r = True) results, st'))"

subsection \<open>updateTarget\<close>

definition apply_update :: "target_update \<Rightarrow> target \<Rightarrow> target" where
  "apply_update u t =
     t \<lparr> url := (case upd_url u of None \<Rightarrow> url t | Some v \<Rightarrow> Some v),
         headers := (case upd_headers u of None \<Rightarrow> headers t | Some h \<Rightarrow> headers t ++ h),
         events := (case upd_events u of None \<Rightarrow> events t | Some i \<Rightarrow> Given i) \<rparr>"

text \<open>
  For an inherited member the three assignments land on the built-in object itself; no
  own property of the registry changes, and the call still returns \<^verbatim>\<open>true\<close>. The
  dispatcher is all the state the model keeps: it describes calls made while the built-in
  objects carry no \<^verbatim>\<open>url\<close>, \<^verbatim>\<open>headers\<close> or \<^verbatim>\<open>events\<close> written by such an earlier call.
\<close>

definition updateTarget :: "dispatcher \<Rightarrow> string \<Rightarrow> target_update \<Rightarrow> bool \<times> dispatcher" where
  "updateTarget st n u =
     (case get_property (targets st) n of
        Undefined \<Rightarrow> (False, st)
      | Inherited \<Rightarrow> (True, st)
      | Own t \<Rightarrow> (True, st \<lparr> targets := AList.update n (apply_update u t) (targets st) \<rparr>))"

subsection \<open>removeTarget\<close>

definition removeTarget :: "dispatcher \<Rightarrow> string \<Rightarrow> bool \<times> dispatcher" where
  "removeTarget st n =
     (case get_property (targets st) n of
        Undefined \<Rightarrow> (False, st)
      | Inherited \<Rightarrow> (True, st)
      | Own t \<Rightarrow> (True, st \<lparr> targets := AList.delete n (targets st) \<rparr>))"

subsection \<open>addEventToTarget\<close>




subsection \<open>Target resolution (the first statement of emit)\<close>

text \<open>
  \<^verbatim>\<open>Object.values(this.targets).filter((target) =>
       target.events.includes(eventName) || target.events.includes('*'))\<close>
\<close>

definition subscribed :: "arrays \<Rightarrow> string \<Rightarrow> target \<Rightarrow> bool" where
  "subscribed arr eventName t \<longleftrightarrow>
     eventName \<in> set (arr (events t)) \<or> ''*'' \<in> set (arr (events t))"

definition resolveTargets :: "dispatcher \<Rightarrow> string \<Rightarrow> target list" where
  "resolveTargets st eventName =
     filter (subscribed (arrays st) eventName) (map snd (targets st))"

section \<open>emit\<close>

subsection \<open>Result objects (EmitResult, EmitError)\<close>

record emit_error =
  target :: string
  event :: string
  error :: thrown

record emit_result =
  success :: bool
  errors :: "emit_error list"

subsection \<open>The environment of one emit call\<close>

text \<open>
  What \<^verbatim>\<open>fetch\<close> is called with, and how the promise it returns ends: a response (status
  and status text; \<^verbatim>\<open>response.ok\<close> is true exactly for a status from 200 to 299), a
  rejection (a transport-level failure), or never at all.
\<close>

record request =
  req_url :: string
  req_method :: string
  req_headers :: "string \<rightharpoonup> string"
  req_body :: string

datatype fetch_outcome = Response nat string | Failed thrown | Never

definition response_ok :: "nat \<Rightarrow> bool" where
  "response_ok status \<longleftrightarrow> 200 \<le> status \<and> status \<le> 299"

text \<open>
  Everything \<^verbatim>\<open>emit\<close> calls but does not define is a parameter, given by what each call
  does:
  \<^item> \<open>emitter_runs i\<close> and \<open>emitter_emit i\<close>: the \<open>i\<close>-th call
    \<^verbatim>\<open>this.emitter.emit(eventName, data)\<close> of this emit runs these handlers (each known by
    a number), in this order, and then returns (\<open>None\<close>) or throws;
  \<^item> \<open>errorHandler\<close>: the configured handler returns (\<open>None\<close>) or throws;
  \<^item> \<open>json_stringify\<close>: \<^verbatim>\<open>JSON.stringify({ eventName, data })\<close> yields text or throws, the
    same each time it is evaluated during one emit;
  \<^item> \<open>fetch j\<close>: how the request for the \<open>j\<close>-th external target ends (\<^verbatim>\<open>fetch\<close> returns a
    promise; a failure is a rejection of that promise);
  \<^item> \<open>completion\<close>: the order in which the pending requests settle (see
    \<open>completion_order\<close>).
  Listeners and the error handler are taken not to call back into the dispatcher.
\<close>

record 'd world =
  emitter_emit :: "nat \<Rightarrow> thrown option"
  emitter_runs :: "nat \<Rightarrow> nat list"
  errorHandler :: "thrown \<Rightarrow> string \<Rightarrow> 'd \<Rightarrow> thrown option"
  json_stringify :: "string \<Rightarrow> 'd \<Rightarrow> thrown + string"
  fetch :: "nat \<Rightarrow> request \<Rightarrow> fetch_outcome"
  completion :: "nat list"

text \<open>
  What one emit does, in the order it does it: \<open>Publish n e d\<close> is the call
  \<^verbatim>\<open>this.emitter.emit(e, d)\<close> made in the turn of the local target \<open>n\<close>, \<open>Listener h d\<close> a
  handler run by the notifier with the payload, \<open>ErrorHandler\<close> a call of the configured
  error handler, \<open>Fetch n rq\<close> the request issued for the external target \<open>n\<close>, and
  \<open>Settled n\<close> the moment that request settles.
\<close>

datatype 'd effect =
    Publish string string 'd
  | Listener nat 'd
  | ErrorHandler thrown string 'd
  | Fetch string request
  | Settled string

type_synonym 'd run = "emit_result \<times> 'd effect list"

datatype emitted = Resolved emit_result | Rejected thrown | Pending

subsection \<open>Recording a failed delivery\<close>

text \<open>
  The three statements every failure path of \<^verbatim>\<open>emit\<close> runs, in this order:
  \<^verbatim>\<open>result.errors.push({ target, event, error })\<close>,
  \<^verbatim>\<open>this.options.errorHandler(error, eventName, data)\<close>,
  \<^verbatim>\<open>result.success = false\<close>.
  When the handler throws, the third statement is not reached; the thrown value is handed
  back to the caller of \<open>report\<close>.
\<close>

definition report ::
  "'d world \<Rightarrow> string \<Rightarrow> 'd \<Rightarrow> string \<Rightarrow> thrown \<Rightarrow> 'd run \<Rightarrow> 'd run \<times> thrown option" where
  "report w eventName d targetName e s =
     (let r1 = (fst s) \<lparr> errors := errors (fst s) @ [\<lparr> target = targetName, event = eventName, error = e \<rparr>] \<rparr>;
          tr1 = snd s @ [ErrorHandler e eventName d]
      in case errorHandler w e eventName d of
           Some y \<Rightarrow> ((r1, tr1), Some y)
         | None \<Rightarrow> ((r1 \<lparr> success := False \<rparr>, tr1), None))"

text \<open>
  A \<^verbatim>\<open>catch (error)\<close> block of \<^verbatim>\<open>emit\<close>: it first normalises what it caught, and a throw of
  the normalising expression leaves the block before anything is recorded.
\<close>

definition catch_block ::
  "'d world \<Rightarrow> string \<Rightarrow> 'd \<Rightarrow> string \<Rightarrow> thrown \<Rightarrow> 'd run \<Rightarrow> 'd run \<times> thrown option" where
  "catch_block w eventName d targetName x s =
     (case as_error x of
        Inl y \<Rightarrow> (s, Some y)
      | Inr e \<Rightarrow> report w eventName d targetName e s)"

subsection \<open>Local targets\<close>

definition truthy :: "string option \<Rightarrow> bool" where
  "truthy u = (case u of None \<Rightarrow> False | Some v \<Rightarrow> v \<noteq> [])"

text \<open>
  The \<^verbatim>\<open>forEach\<close> over the targets without a url. A throw inside the \<^verbatim>\<open>catch\<close> block leaves
  the \<^verbatim>\<open>forEach\<close> and \<^verbatim>\<open>emit\<close> itself (second component \<open>Some\<close>).
\<close>

fun emit_local ::
  "'d world \<Rightarrow> string \<Rightarrow> 'd \<Rightarrow> nat \<Rightarrow> target list \<Rightarrow> 'd run \<Rightarrow> 'd run \<times> thrown option" where
  "emit_local w eventName d i [] s = (s, None)"
| "emit_local w eventName d i (t # ts) s =
     (let s1 = (fst s, snd s @ Publish (name t) eventName d
                                 # map (\<lambda>h. Listener h d) (emitter_runs w i))
      in case emitter_emit w i of
           None \<Rightarrow> emit_local w eventName d (Suc i) ts s1
         | Some x \<Rightarrow>
             (case catch_block w eventName d (name t) x s1 of
                (s2, Some y) \<Rightarrow> (s2, Some y)
              | (s2, None) \<Rightarrow> emit_local w eventName d (Suc i) ts s2))"

subsection \<open>External targets\<close>

definition request_for :: "target \<Rightarrow> string \<Rightarrow> request" where
  "request_for t body =
     \<lparr> req_url = (case url t of None \<Rightarrow> [] | Some u \<Rightarrow> u),
       req_method = ''POST'',
       req_headers = [''Content-Type'' \<mapsto> ''application/json''] ++ headers t,
       req_body = body \<rparr>"

text \<open>
  The part of each \<^verbatim>\<open>async (target) => { ... }\<close> callback that runs inside
  \<^verbatim>\<open>externalTargets.map\<close>, up to its \<^verbatim>\<open>await\<close>: the request is built and \<^verbatim>\<open>fetch\<close> is called.
  If building the body throws, the \<^verbatim>\<open>catch\<close> block runs at once; a throw inside that block
  only rejects this callback's promise, which \<^verbatim>\<open>Promise.allSettled\<close> absorbs.
  The second component collects the requests now in flight.
\<close>

fun start_requests ::
  "'d world \<Rightarrow> string \<Rightarrow> 'd \<Rightarrow> nat \<Rightarrow> target list \<Rightarrow> 'd run
     \<Rightarrow> 'd run \<times> (target \<times> fetch_outcome) list" where
  "start_requests w eventName d j [] s = (s, [])"
| "start_requests w eventName d j (t # ts) s =
     (case json_stringify w eventName d of
        Inl x \<Rightarrow>
          start_requests w eventName d (Suc j) ts
            (fst (catch_block w eventName d (name t) x s))
      | Inr body \<Rightarrow>
          (let rq = request_for t body;
               (s', inflight) =
                  start_requests w eventName d (Suc j) ts (fst s, snd s @ [Fetch (name t) rq])
           in (s', (t, fetch w j rq) # inflight)))"

fun digits_of :: "nat \<Rightarrow> string" where
  "digits_of n =
     (if n < 10 then [''0123456789'' ! n]
      else digits_of (n div 10) @ [''0123456789'' ! (n mod 10)])"

definition http_error :: "nat \<Rightarrow> string \<Rightarrow> thrown" where
  "http_error status statusText =
     ErrorObj (''HTTP error! Status: '' @ digits_of status @ '': '' @ statusText)"

text \<open>
  The rest of the callback, run when its request settles. A response that is not ok is
  reported inside the \<^verbatim>\<open>try\<close> block, so a throw of the error handler there is caught by the
  callback's own \<^verbatim>\<open>catch\<close> block and reported again.
\<close>

fun settle :: "'d world \<Rightarrow> string \<Rightarrow> 'd \<Rightarrow> target \<times> fetch_outcome \<Rightarrow> 'd run \<Rightarrow> 'd run" where
  "settle w eventName d (t, Response status statusText) s =
     (let s1 = (fst s, snd s @ [Settled (name t)])
      in if response_ok status then s1
         else case report w eventName d (name t) (http_error status statusText) s1 of
                (s2, None) \<Rightarrow> s2
              | (s2, Some y) \<Rightarrow> fst (catch_block w eventName d (name t) y s2))"
| "settle w eventName d (t, Failed x) s =
     fst (catch_block w eventName d (name t) x (fst s, snd s @ [Settled (name t)]))"
| "settle w eventName d (t, Never) s = s"

text \<open>
  Requests settle in any order. A schedule picks, step by step, which of the requests
  still pending settles next; when the schedule runs out the rest settle in issue order.
\<close>

function completion_order :: "nat list \<Rightarrow> 'a list \<Rightarrow> 'a list" where
  "completion_order sched [] = []"
| "completion_order [] (x # xs) = x # xs"
| "completion_order (i # sched) (x # xs) =
     (let j = i mod length (x # xs)
      in (x # xs) ! j # completion_order sched (take j (x # xs) @ drop (Suc j) (x # xs)))"
  by pat_completeness auto
termination
  by (relation "measure (\<lambda>(sched, xs). length xs)") auto

definition settles :: "target \<times> fetch_outcome \<Rightarrow> bool" where
  "settles p \<longleftrightarrow> snd p \<noteq> Never"

subsection \<open>emit\<close>

text \<open>
  \<^verbatim>\<open>targets.filter((target) => !target.url)\<close> and \<^verbatim>\<open>targets.filter((target) => target.url)\<close>:
  an empty string is no url.
\<close>

definition localTargets :: "dispatcher \<Rightarrow> string \<Rightarrow> target list" where
  "localTargets st eventName = filter (\<lambda>t. \<not> truthy (url t)) (resolveTargets st eventName)"

definition externalTargets :: "dispatcher \<Rightarrow> string \<Rightarrow> target list" where
  "externalTargets st eventName = filter (\<lambda>t. truthy (url t)) (resolveTargets st eventName)"

text \<open>
  The block under \<^verbatim>\<open>// Proceed with external Targets\<close>, entered with the run the local
  targets left. It ends in the promise \<^verbatim>\<open>emit\<close> returns: resolved with \<^verbatim>\<open>result\<close> once
  \<^verbatim>\<open>Promise.allSettled\<close> has seen every callback end, pending for ever when one of the
  requests never settles.
\<close>

definition emit_external ::
  "'d world \<Rightarrow> string \<Rightarrow> 'd \<Rightarrow> target list \<Rightarrow> 'd run \<Rightarrow> emitted \<times> 'd effect list" where
  "emit_external w eventName d ts s1 =
     (if length ts > 0 then
        (let (s2, inflight) = start_requests w eventName d 0 ts s1;
             s3 = fold (settle w eventName d)
                    (completion_order (completion w) (filter settles inflight)) s2
         in (if list_all settles inflight then Resolved (fst s3) else Pending, snd s3))
      else (Resolved (fst s1), snd s1))"

text \<open>
  \<^verbatim>\<open>emit\<close> with what it does. A throw that leaves the \<^verbatim>\<open>forEach\<close> over the local targets
  rejects the promise before any external target is looked at.
\<close>

definition emit :: "'d world \<Rightarrow> dispatcher \<Rightarrow> string \<Rightarrow> 'd \<Rightarrow> emitted \<times> 'd effect list" where
  "emit w st eventName d =
     (case emit_local w eventName d 0 (localTargets st eventName)
             (\<lparr> success = True, errors = [] \<rparr>, []) of
        (s1, Some y) \<Rightarrow> (Rejected y, snd s1)
      | (s1, None) \<Rightarrow> emit_external w eventName d (externalTargets st eventName) s1)"

subsection \<open>Reading a run\<close>







subsection \<open>What a run is expected to record\<close>
















section \<open>handleIncomingEvent\<close>

text \<open>
  \<^verbatim>\<open>body: string | object\<close>. A structured body is a non-null object, known by what reading
  each of its properties does: the read yields a value, yields \<^verbatim>\<open>undefined\<close> (\<open>None\<close>), or
  throws, as an accessor property can. What \<^verbatim>\<open>JSON.parse\<close> returns is kept as far as the
  destructuring \<^verbatim>\<open>const { eventName, data } = ...\<close> can tell values apart: \<^verbatim>\<open>null\<close>
  (destructuring throws a \<^verbatim>\<open>TypeError\<close>), an object or array (its properties, plain values,
  are read), or a number, string or boolean (both names come out \<^verbatim>\<open>undefined\<close>).
\<close>

datatype 'v body = Text string | Structured "string \<Rightarrow> thrown + 'v option"

datatype 'v decoded = Null | Object "string \<rightharpoonup> 'v" | Primitive

fun destructure :: "'v decoded \<Rightarrow> thrown + ('v option \<times> 'v option)" where
  "destructure Null =
     Inl (ErrorObj ''Cannot destructure property eventName of null'')"
| "destructure (Object props) = Inr (props ''eventName'', props ''data'')"
| "destructure Primitive = Inr (None, None)"

text \<open>Destructuring an object body reads \<^verbatim>\<open>eventName\<close>, then \<^verbatim>\<open>data\<close>.\<close>

definition read_fields ::
  "(string \<Rightarrow> thrown + 'v option) \<Rightarrow> thrown + ('v option \<times> 'v option)" where
  "read_fields get =
     (case get ''eventName'' of
        Inl x \<Rightarrow> Inl x
      | Inr e \<Rightarrow> (case get ''data'' of Inl x \<Rightarrow> Inl x | Inr d \<Rightarrow> Inr (e, d)))"

text \<open>The callback handed to \<^verbatim>\<open>process.nextTick\<close>, with the two values it closes over.\<close>

datatype 'v task = Deliver "'v option" "'v option"

datatype settled = Fulfilled | RejectedWith thrown

record 'v incoming =
  outcome :: settled
  handler_calls :: "(thrown \<times> string) list"
  next_tick :: "'v task list"

text \<open>
  Parameters: \<open>json_parse\<close> is \<^verbatim>\<open>JSON.parse\<close> (the message of the \<^verbatim>\<open>SyntaxError\<close> it throws, or
  the value), \<open>handler\<close> is the configured error handler called with an error and an event
  name and no data (it returns, \<open>None\<close>, or throws). In the \<^verbatim>\<open>catch\<close> block the argument of
  the handler is normalised first; a throw of the normalising expression rejects the call
  before the handler is reached.
\<close>

definition handleIncomingEvent ::
  "(string \<Rightarrow> string + 'v decoded) \<Rightarrow> (thrown \<Rightarrow> string \<Rightarrow> thrown option) \<Rightarrow> 'v body
     \<Rightarrow> 'v incoming" where
  "handleIncomingEvent json_parse handler b =
     (case (case b of
              Text s \<Rightarrow> (case json_parse s of
                           Inl m \<Rightarrow> Inl (ErrorObj m)
                         | Inr v \<Rightarrow> destructure v)
            | Structured get \<Rightarrow> read_fields get) of
        Inr (eventName, d) \<Rightarrow>
          \<lparr> outcome = Fulfilled, handler_calls = [], next_tick = [Deliver eventName d] \<rparr>
      | Inl x \<Rightarrow>
          (case as_error x of
             Inl y \<Rightarrow> \<lparr> outcome = RejectedWith y, handler_calls = [], next_tick = [] \<rparr>
           | Inr e \<Rightarrow>
               \<lparr> outcome = (case handler e ''parse_event'' of
                              None \<Rightarrow> RejectedWith x
                            | Some y \<Rightarrow> RejectedWith y),
                 handler_calls = [(e, ''parse_event'')],
                 next_tick = [] \<rparr>))"

section \<open>A small dispatcher, for the examples\<close>


definition local_c :: target where
  "local_c = \<lparr> name = ''c'', url = None, headers = Map.empty, events = Given 2 \<rparr>"


definition example_arrays :: arrays where
  "example_arrays = (\<lambda>r. [])(Given 1 := [''x''], Given 2 := [''*''])"


section \<open>Properties of the registry\<close>

subsection \<open>Lemmas\<close>

lemma takeWhile_keys_fresh:
  "k \<notin> fst ` set reg \<Longrightarrow> map_of (takeWhile P reg) k = None"
  by (induction reg) (auto simp: map_of_eq_None_iff)

lemma map_of_define_property:
  assumes "k \<notin> fst ` set reg"
  shows "map_of (define_property k t reg) = (map_of reg)(k \<mapsto> t)"
proof
  fix x
  let ?P = "\<lambda>(k', _). enumerated_before k' k"
  have split: "map_of reg x = (map_of (dropWhile ?P reg) ++ map_of (takeWhile ?P reg)) x"
    by (metis map_of_append takeWhile_dropWhile_id)
  have fresh: "map_of (takeWhile ?P reg) k = None"
    by (rule takeWhile_keys_fresh[OF assms])
  show "map_of (define_property k t reg) x = ((map_of reg)(k \<mapsto> t)) x"
    using split fresh by (auto simp: define_property_def map_add_def split: option.splits)
qed

lemma addTarget_entry_registered:
  "map_of (targets st) (in_name a) = Some t \<Longrightarrow> addTarget_entry a st = (False, st)"
  by (simp add: addTarget_entry_def get_property_def)

lemma addTarget_entry_fresh:
  assumes "in_name a \<notin> fst ` set (targets st)" and "in_name a \<notin> set object_prototype_keys"
  shows "fst (addTarget_entry a st) = True"
    and "map_of (targets (snd (addTarget_entry a st)))
           = (map_of (targets st))(in_name a \<mapsto> stored_target a)"
    and "arrays (snd (addTarget_entry a st)) (events (stored_target a))
           = (case in_events a of None \<Rightarrow> [] | Some i \<Rightarrow> arrays st (Given i))"
proof -
  have "map_of (targets st) (in_name a) = None"
    using assms(1) by (simp add: map_of_eq_None_iff)
  then have eq: "addTarget_entry a st
      = (True,
         st \<lparr> targets := define_property (in_name a) (stored_target a) (targets st),
              arrays := (case in_events a of
                           None \<Rightarrow> (arrays st)(Created (in_name a) := [])
                         | Some i \<Rightarrow> arrays st) \<rparr>)"
    using assms(2) by (simp add: addTarget_entry_def get_property_def)
  show "fst (addTarget_entry a st) = True" by (simp add: eq)
  show "map_of (targets (snd (addTarget_entry a st)))
           = (map_of (targets st))(in_name a \<mapsto> stored_target a)"
    using map_of_define_property[OF assms(1)] by (simp add: eq)
  show "arrays (snd (addTarget_entry a st)) (events (stored_target a))
           = (case in_events a of None \<Rightarrow> [] | Some i \<Rightarrow> arrays st (Given i))"
    by (simp add: eq stored_target_def split: option.splits)
qed

text \<open>A registered target survives any batch, with its fields as they were.\<close>

lemma addTarget_entry_keeps:
  "map_of (targets st) k = Some t \<Longrightarrow> map_of (targets (snd (addTarget_entry a st))) k = Some t"
proof (cases "get_property (targets st) (in_name a)")
  case Undefined
  assume k: "map_of (targets st) k = Some t"
  from Undefined have none: "map_of (targets st) (in_name a) = None"
    by (simp add: get_property_def split: option.splits if_splits)
  then have "in_name a \<notin> fst ` set (targets st)" by (simp add: map_of_eq_None_iff)
  from map_of_define_property[OF this] k none show ?thesis
    by (auto simp: addTarget_entry_def Undefined)
qed (simp_all add: addTarget_entry_def)

lemma addTarget_map_keeps:
  "map_of (targets st) k = Some t \<Longrightarrow> map_of (targets (snd (addTarget_map as st))) k = Some t"
proof (induction as arbitrary: st)
  case Nil
  then show ?case by simp
next
  case (Cons a as)
  from Cons.IH[OF addTarget_entry_keeps[OF Cons.prems, of a]] show ?case
    by (simp add: split_beta)
qed

lemma addTarget_keeps:
  "map_of (targets st) k = Some t \<Longrightarrow> map_of (targets (snd (addTarget st arg))) k = Some t"
  by (simp add: addTarget_def split_beta addTarget_map_keeps)

lemma updateTarget_unknown:
  "n \<notin> fst ` set (targets st) \<Longrightarrow> n \<notin> set object_prototype_keys
     \<Longrightarrow> updateTarget st n u = (False, st)"
  by (simp add: updateTarget_def get_property_def map_of_eq_None_iff[THEN iffD2])

lemma updateTarget_known:
  "map_of (targets st) n = Some t \<Longrightarrow>
     updateTarget st n u
       = (True, st \<lparr> targets := AList.update n (apply_update u t) (targets st) \<rparr>)"
  by (simp add: updateTarget_def get_property_def)

lemma apply_update_fields:
  "name (apply_update u t) = name t"
  "url (apply_update u t) = (case upd_url u of None \<Rightarrow> url t | Some v \<Rightarrow> Some v)"
  "headers (apply_update u t) k
     = (case upd_headers u of
          None \<Rightarrow> headers t k
        | Some h \<Rightarrow> (case h k of None \<Rightarrow> headers t k | Some v \<Rightarrow> Some v))"
  "events (apply_update u t) = (case upd_events u of None \<Rightarrow> events t | Some i \<Rightarrow> Given i)"
  by (simp_all add: apply_update_def map_add_def split: option.splits)









subsection \<open>addTarget and names inherited from Object.prototype\<close>

text \<open>
  C3. A target whose name is not registered is to be stored, and \<^verbatim>\<open>addTarget\<close> is to return
  true when every entry of the batch was stored. On a new dispatcher
  \<^verbatim>\<open>addTarget({ name: 'constructor', events: ['user.created'] })\<close> finds
  \<^verbatim>\<open>this.targets['constructor']\<close> truthy (it is \<^verbatim>\<open>Object\<close>), reports that the target already
  exists, stores nothing and returns false, whatever the array holds. A fresh name that
  no member of \<^verbatim>\<open>Object.prototype\<close> bears is stored as claimed
  (\<open>addTarget_entry_fresh\<close>), and a registered target is left as it is by any batch
  (\<open>addTarget_keeps\<close>).
\<close>

theorem addTarget_constructor:
  "addTarget \<lparr> targets = [], arrays = arr, frozen = fz \<rparr>
     (One \<lparr> in_name = ''constructor'', in_url = None, in_headers = None, in_events = Some 1 \<rparr>)
   = (False, \<lparr> targets = [], arrays = arr, frozen = fz \<rparr>)"
  by (simp add: addTarget_def addTarget_entry_def get_property_def object_prototype_keys_def)

subsection \<open>updateTarget and names inherited from Object.prototype\<close>

text \<open>
  C4. \<^verbatim>\<open>updateTarget\<close> on a name that is not registered is to return false. On a new
  dispatcher \<^verbatim>\<open>updateTarget('constructor', { url: 'http://localhost:9000' })\<close> passes the
  check \<^verbatim>\<open>if (!this.targets[name])\<close>, writes the url onto the built-in \<^verbatim>\<open>Object\<close> function and
  returns true. For an unknown name that no member of \<^verbatim>\<open>Object.prototype\<close> bears it
  returns false and leaves the dispatcher as it is (\<open>updateTarget_unknown\<close>); for a
  registered name the update is applied as claimed (\<open>updateTarget_known\<close>,
  \<open>apply_update_fields\<close>).
\<close>

theorem updateTarget_constructor:
  "updateTarget \<lparr> targets = [], arrays = arr, frozen = fz \<rparr> ''constructor''
     \<lparr> upd_url = Some ''http://localhost:9000'', upd_headers = None, upd_events = None \<rparr>
   = (True, \<lparr> targets = [], arrays = arr, frozen = fz \<rparr>)"
  by (simp add: updateTarget_def get_property_def object_prototype_keys_def)

subsection \<open>addEventToTarget\<close>




subsection \<open>Target resolution\<close>

text \<open>
  C7. The targets \<^verbatim>\<open>emit\<close> resolves for an event name are the stored targets, in the order
  of the registry, whose events contain the name or \<^verbatim>\<open>"*"\<close>; a stored target that lists
  \<^verbatim>\<open>"*"\<close> is resolved for every event name; and the local and the external targets of
  \<^verbatim>\<open>emit\<close> together are the resolved ones.
\<close>

theorem resolveTargets_selects:
  "resolveTargets st eventName
     = filter (\<lambda>t. eventName \<in> set (arrays st (events t)) \<or> ''*'' \<in> set (arrays st (events t)))
         (map snd (targets st))
   \<and> subseq (resolveTargets st eventName) (map snd (targets st))
   \<and> ((n, t) \<in> set (targets st) \<and> ''*'' \<in> set (arrays st (events t))
        \<longrightarrow> t \<in> set (resolveTargets st eventName))
   \<and> mset (localTargets st eventName) + mset (externalTargets st eventName)
        = mset (resolveTargets st eventName)"
proof -
  have a: "resolveTargets st eventName
     = filter (\<lambda>t. eventName \<in> set (arrays st (events t)) \<or> ''*'' \<in> set (arrays st (events t)))
         (map snd (targets st))"
    unfolding resolveTargets_def by (rule filter_cong) (simp_all add: subscribed_def)
  have b: "subseq (resolveTargets st eventName) (map snd (targets st))"
    by (simp add: resolveTargets_def)
  have c: "(n, t) \<in> set (targets st) \<and> ''*'' \<in> set (arrays st (events t))
             \<longrightarrow> t \<in> set (resolveTargets st eventName)"
    by (force simp: resolveTargets_def subscribed_def)
  have d: "mset (localTargets st eventName) + mset (externalTargets st eventName)
        = mset (resolveTargets st eventName)"
    by (simp add: localTargets_def externalTargets_def)
  from a b c d show ?thesis by blast
qed

theorem resolveTargets_selects_witness:
  "(''c'', local_c) \<in> set (targets \<lparr> targets = [(''c'', local_c)], arrays = example_arrays, frozen = {} \<rparr>)
   \<and> ''*'' \<in> set (example_arrays (events local_c))
   \<and> local_c \<in> set (resolveTargets \<lparr> targets = [(''c'', local_c)], arrays = example_arrays, frozen = {} \<rparr>
                        ''something.else'')"
  using resolveTargets_selects
          [of "\<lparr> targets = [(''c'', local_c)], arrays = example_arrays, frozen = {} \<rparr>"
              "''something.else''" "''c''" local_c]
  by (simp add: local_c_def example_arrays_def)

section \<open>Properties of handleIncomingEvent\<close>

text \<open>
  C9, as the code has it. For a text body that \<^verbatim>\<open>JSON.parse\<close> rejects, the error handler is
  called once, with the parse error and the event name \<^verbatim>\<open>parse_event\<close>, nothing is handed to
  \<^verbatim>\<open>process.nextTick\<close>, and the call rejects: with the parse error when the handler
  returned, with what the handler threw otherwise.
\<close>

theorem handleIncomingEvent_invalid_json:
  "json_parse s = Inl m \<Longrightarrow>
     handleIncomingEvent json_parse handler (Text s)
       = \<lparr> outcome = RejectedWith (case handler (ErrorObj m) ''parse_event'' of
                                     None \<Rightarrow> ErrorObj m | Some y \<Rightarrow> y),
           handler_calls = [(ErrorObj m, ''parse_event'')],
           next_tick = [] \<rparr>"
  by (simp add: handleIncomingEvent_def split: option.splits)

theorem handleIncomingEvent_invalid_json_witness:
  "handleIncomingEvent (\<lambda>s. if s = ''not json'' then Inl ''Unexpected token'' else Inr Primitive)
     (\<lambda>e n. None) (Text ''not json'' :: string body)
   = \<lparr> outcome = RejectedWith (ErrorObj ''Unexpected token''),
       handler_calls = [(ErrorObj ''Unexpected token'', ''parse_event'')],
       next_tick = [] \<rparr>"
  using handleIncomingEvent_invalid_json
          [of "\<lambda>s. if s = ''not json'' then Inl ''Unexpected token'' else Inr Primitive"
              "''not json''" "''Unexpected token''" "\<lambda>e n. None"]
  by simp

text \<open>
  C9 as stated fails when the error handler throws: the caller then receives what the
  handler threw, not the parse error.
\<close>

theorem handleIncomingEvent_throwing_handler_counterexample:
  "outcome (handleIncomingEvent
              (\<lambda>s. if s = ''not json'' then Inl ''Unexpected token'' else Inr Primitive)
              (\<lambda>e n. Some (ErrorObj ''handler failed'')) (Text ''not json'' :: string body))
     = RejectedWith (ErrorObj ''handler failed'')
   \<and> RejectedWith (ErrorObj ''handler failed'') \<noteq> RejectedWith (ErrorObj ''Unexpected token'')"
  by (simp add: handleIncomingEvent_def)





section \<open>Properties of emit\<close>

subsection \<open>Lemmas\<close>


















subsubsection \<open>The local targets\<close>




subsubsection \<open>The external targets\<close>










text \<open>Every order in which the pending requests can settle is the order of some schedule.\<close>

lemma completion_order_any:
  "mset ys = mset xs \<Longrightarrow> \<exists>sched. completion_order sched xs = ys"
proof (induction ys arbitrary: xs)
  case Nil
  then show ?case by simp
next
  case (Cons y ys)
  then have "y \<in> set xs" by (metis list.set_intros(1) set_mset_mset)
  then obtain j where j: "j < length xs" "xs ! j = y" by (auto simp: in_set_conv_nth)
  let ?rest = "take j xs @ drop (Suc j) xs"
  have "mset xs = add_mset y (mset ?rest)"
    using id_take_nth_drop[OF j(1)] j(2) by (metis mset.simps(2) mset_append union_mset_add_mset_right)
  with Cons.prems have "mset ys = mset ?rest" by simp
  from Cons.IH[OF this] obtain sched where sched: "completion_order sched ?rest = ys" by blast
  obtain x xs' where xs: "xs = x # xs'" using j(1) by (cases xs) auto
  have "completion_order (j # sched) xs = y # ys"
    using j sched unfolding xs by (simp add: Let_def)
  then show ?case by blast
qed









subsubsection \<open>Counting the expected entries\<close>








subsubsection \<open>One emit\<close>



subsection \<open>Claims\<close>

text \<open>
  C8. When no target is resolved for the event name, \<^verbatim>\<open>emit\<close> resolves with
  \<^verbatim>\<open>{ success: true, errors: [] }\<close> and makes no call at all: no publish, no request, no
  call of the error handler.
\<close>

theorem emit_without_targets:
  "resolveTargets st eventName = [] \<Longrightarrow>
     emit w st eventName d = (Resolved \<lparr> success = True, errors = [] \<rparr>, [])"
  by (simp add: emit_def emit_external_def localTargets_def externalTargets_def)

theorem emit_without_targets_witness:
  "resolveTargets
     \<lparr> targets = [(''internal'', \<lparr> name = ''internal'', url = None, headers = Map.empty,
                                   events = Given 1 \<rparr>)],
       arrays = (\<lambda>r. [])(Given 1 := [''user.created'']), frozen = {} \<rparr> ''user.deleted'' = []
   \<and> emit \<lparr> emitter_emit = (\<lambda>i. Some (ErrorObj ''listener failed'')),
            emitter_runs = (\<lambda>i. [7]),
            errorHandler = (\<lambda>e n d. Some (ErrorObj ''handler failed'')),
            json_stringify = (\<lambda>n d. Inl (ErrorObj ''circular structure'')),
            fetch = (\<lambda>j rq. Never),
            completion = [] \<rparr>
       \<lparr> targets = [(''internal'', \<lparr> name = ''internal'', url = None, headers = Map.empty,
                                     events = Given 1 \<rparr>)],
         arrays = (\<lambda>r. [])(Given 1 := [''user.created'']), frozen = {} \<rparr> ''user.deleted'' ''payload''
     = (Resolved \<lparr> success = True, errors = [] \<rparr>, [])"
proof -
  have none: "resolveTargets
     \<lparr> targets = [(''internal'', \<lparr> name = ''internal'', url = None, headers = Map.empty,
                                   events = Given 1 \<rparr>)],
       arrays = (\<lambda>r. [])(Given 1 := [''user.created'']), frozen = {} \<rparr> ''user.deleted'' = []"
    by (simp add: resolveTargets_def subscribed_def)
  from none emit_without_targets [OF none] show ?thesis by simp
qed












end
